theory Spec2Isabelle
  imports Main "HOL-Library.AList" "HOL-Library.Sublist"
begin

section \<open>Path handling used by the template resolver\<close>

text \<open>
  \<^verbatim>\<open>serveTemplate\<close> resolves the template with \<^verbatim>\<open>filepath.Base\<close> and
  \<^verbatim>\<open>filepath.Join\<close> of Go's \<^verbatim>\<open>path/filepath\<close> package. The definitions below follow
  the Unix implementation of that package (separator \<^verbatim>\<open>/\<close>, no volume names), byte by
  byte: a Go string is a sequence of bytes, as an Isabelle \<^typ>\<open>string\<close> is.
\<close>

definition Separator :: char where
  "Separator = CHR ''/''"

definition IsPathSeparator :: "char \<Rightarrow> bool" where
  "IsPathSeparator c = (c = Separator)"

text \<open>
  \<^verbatim>\<open>filepath.Base\<close>: the empty path gives \<^verbatim>\<open>"."\<close>; trailing separators are removed;
  what follows the last remaining separator is kept; a path of separators only gives
  \<^verbatim>\<open>"/"\<close>.
\<close>

definition strip_trailing :: "string \<Rightarrow> string" where
  "strip_trailing p = rev (dropWhile IsPathSeparator (rev p))"

definition last_element :: "string \<Rightarrow> string" where
  "last_element p = rev (takeWhile (\<lambda>c. \<not> IsPathSeparator c) (rev p))"

definition Base :: "string \<Rightarrow> string" where
  "Base path =
     (if path = [] then ''.''
      else let path1 = last_element (strip_trailing path)
           in if path1 = [] then [Separator] else path1)"

text \<open>
  \<^verbatim>\<open>filepath.Clean\<close>. The loop reads the path from index \<^verbatim>\<open>r\<close> (here: the rest of the
  path still to read) and writes to a buffer of \<^verbatim>\<open>w\<close> bytes (here: the string
  \<open>out\<close>); \<open>dotdot\<close> is the index in the buffer below which a \<^verbatim>\<open>..\<close> element
  must not backtrack.
\<close>

definition elem_ends :: "string \<Rightarrow> bool" where
  "elem_ends cs = (case cs of [] \<Rightarrow> True | d # _ \<Rightarrow> IsPathSeparator d)"

function back_to :: "string \<Rightarrow> nat \<Rightarrow> nat \<Rightarrow> nat" where
  "back_to out dotdot w =
     (if w > dotdot \<and> \<not> IsPathSeparator (out ! w) then back_to out dotdot (w - 1) else w)"
  by pat_completeness auto
termination
  by (relation "measure (\<lambda>(out, dotdot, w). w)") auto

declare back_to.simps [simp del]

function clean_loop :: "bool \<Rightarrow> string \<Rightarrow> string \<Rightarrow> nat \<Rightarrow> string" where
  "clean_loop rooted [] out dotdot = out"
| "clean_loop rooted (c # cs) out dotdot =
     (if IsPathSeparator c then
        clean_loop rooted cs out dotdot
      else if c = CHR ''.'' \<and> elem_ends cs then
        clean_loop rooted cs out dotdot
      else if c = CHR ''.'' \<and> cs \<noteq> [] \<and> hd cs = CHR ''.'' \<and> elem_ends (tl cs) then
        (if length out > dotdot then
           clean_loop rooted (tl cs) (take (back_to out dotdot (length out - 1)) out) dotdot
         else if \<not> rooted then
           (let out' = (if length out > 0 then out @ [Separator] else out) @ ''..''
            in clean_loop rooted (tl cs) out' (length out'))
         else clean_loop rooted (tl cs) out dotdot)
      else
        (let out' = (if rooted \<and> length out \<noteq> 1 \<or> \<not> rooted \<and> length out \<noteq> 0
                     then out @ [Separator] else out)
         in clean_loop rooted (dropWhile (\<lambda>d. \<not> IsPathSeparator d) (c # cs))
              (out' @ takeWhile (\<lambda>d. \<not> IsPathSeparator d) (c # cs)) dotdot))"
  by pat_completeness auto
termination
proof (relation "measure (\<lambda>(rooted, rest, out, dotdot). length rest)", goal_cases)
  case 1
  show ?case by simp
next
  case (2 rooted c cs out dotdot)
  then show ?case by simp
next
  case (3 rooted c cs out dotdot)
  then show ?case by simp
next
  case (4 rooted c cs out dotdot)
  then show ?case by (cases cs) simp_all
next
  case (5 rooted c cs out dotdot)
  then show ?case by (cases cs) simp_all
next
  case (6 rooted c cs out dotdot)
  then show ?case by (cases cs) simp_all
next
  case (7 rooted c cs out dotdot)
  have "length (dropWhile (\<lambda>d. \<not> IsPathSeparator d) cs) \<le> length cs"
    by (rule length_dropWhile_le)
  with 7 show ?case by simp
qed

declare clean_loop.simps [simp del]

definition Clean :: "string \<Rightarrow> string" where
  "Clean path =
     (if path = [] then ''.''
      else
        let rooted = IsPathSeparator (hd path);
            out = (if rooted then clean_loop True (tl path) [Separator] 1
                   else clean_loop False path [] 0)
        in if out = [] then ''.'' else out)"

text \<open>\<^verbatim>\<open>strings.Join(elems, "/")\<close> and \<^verbatim>\<open>filepath.Join\<close>.\<close>

fun sep_join :: "string list \<Rightarrow> string" where
  "sep_join [] = []"
| "sep_join [e] = e"
| "sep_join (e # f # es) = e @ [Separator] @ sep_join (f # es)"

fun Join :: "string list \<Rightarrow> string" where
  "Join [] = []"
| "Join (e # es) = (if e = [] then Join es else Clean (sep_join (e # es)))"

section \<open>The data model\<close>

text \<open>
  The structs of the source, in dependency order. Go's \<^verbatim>\<open>int\<close> fields hold small
  literals only and are never computed with, so they are plain integers here; slices are
  lists; a nil slice and an empty one are not told apart by anything the program does.
\<close>

record Answer =
  AnsID :: int
  AnsBody :: string
  AnsDate :: string
  AnsTime :: string
  AnsUser :: string
  AnsVotes :: "string list"
  AnsViews :: int
  AnsQn :: int

record Question =
  QnID :: int
  QnHeading :: string
  QnBody :: string
  QnTags :: "string list"
  QnImage :: "string list"
  QnDate :: string
  QnTime :: string
  QnUser :: string
  QnAnswers :: "Answer list"
  QnVotes :: "string list"
  QnViews :: int
  QnOpen :: bool

record Badge =
  BadgeID :: int
  BadgeName :: string
  BadgeDesc :: string
  BadgeUsers :: "string list"

record Tag =
  TagID :: int
  TagName :: string
  TagDesc :: string

record User =
  FirstName :: string
  LastName :: string
  UserName :: string
  UniqueID :: int
  Questions :: "Question list"
  Answers :: "Answer list"
  Notifications :: "string list"
  Password :: string
  UserTags :: "string list"
  UserType :: "string list"
  UserImage :: string
  SuperUser :: bool
  ModTags :: "string list"
  ModQuestions :: "Question list"
  Badges :: "Badge list"

text \<open>The zero value of \<^verbatim>\<open>User\<close>: what a composite literal leaves in the fields it omits.\<close>

definition zero_User :: User where
  "zero_User =
     \<lparr>FirstName = [], LastName = [], UserName = [], UniqueID = 0, Questions = [],
      Answers = [], Notifications = [], Password = [], UserTags = [], UserType = [],
      UserImage = [], SuperUser = False, ModTags = [], ModQuestions = [], Badges = []\<rparr>"

text \<open>
  The anonymous struct \<^verbatim>\<open>struct { Logged bool; User *User }\<close> built by the handler; the
  pointer is an option (\<open>None\<close> for nil).
\<close>

record Page =
  Logged :: bool
  User :: "User option"

section \<open>Requests and the response writer\<close>

text \<open>The parts of \<^verbatim>\<open>*http.Request\<close> a handler can read.\<close>

record Request =
  Method :: string
  URL_Path :: string
  Header :: "(string \<times> string list) list"
  Body :: string
  RemoteAddr :: string

text \<open>
  \<^verbatim>\<open>http.ResponseWriter\<close>: the header map the handler edits, the status line once it
  has been written (with the headers as they were then: later edits of the map are not
  sent), and the bytes of the body written so far.
\<close>

record ResponseWriter =
  handlerHeader :: "(string \<times> string) list"
  wrote :: "(nat \<times> (string \<times> string) list) option"
  body :: string

definition NewWriter :: ResponseWriter where
  "NewWriter = \<lparr>handlerHeader = [], wrote = None, body = []\<rparr>"

definition status :: "ResponseWriter \<Rightarrow> nat option" where
  "status w = map_option fst (wrote w)"

text \<open>\<^verbatim>\<open>WriteHeader\<close>: the first call fixes the status; later calls are ignored.\<close>

definition WriteHeader :: "nat \<Rightarrow> ResponseWriter \<Rightarrow> ResponseWriter" where
  "WriteHeader code w =
     (case wrote w of
        None \<Rightarrow> w\<lparr>wrote := Some (code, handlerHeader w)\<rparr>
      | Some _ \<Rightarrow> w)"

text \<open>\<^verbatim>\<open>Write\<close>: writes the header with status 200 first when none was written.\<close>

definition StatusOK :: nat where
  "StatusOK = 200"

definition StatusInternalServerError :: nat where
  "StatusInternalServerError = 500"

definition Write :: "string \<Rightarrow> ResponseWriter \<Rightarrow> ResponseWriter" where
  "Write data w = (let w1 = WriteHeader StatusOK w in w1\<lparr>body := body w1 @ data\<rparr>)"

text \<open>
  \<^verbatim>\<open>http.Error(w, error, code)\<close>: drops \<^verbatim>\<open>Content-Length\<close>, sets the content type
  and \<^verbatim>\<open>X-Content-Type-Options\<close>, writes the header with \<open>code\<close> and prints the
  message with \<^verbatim>\<open>fmt.Fprintln\<close>, that is, followed by a line feed.
\<close>

definition http_Error :: "ResponseWriter \<Rightarrow> string \<Rightarrow> nat \<Rightarrow> ResponseWriter" where
  "http_Error w err code =
     (let h = AList.update ''X-Content-Type-Options'' ''nosniff''
                (AList.update ''Content-Type'' ''text/plain; charset=utf-8''
                   (AList.delete ''Content-Length'' (handlerHeader w)));
          w1 = WriteHeader code (w\<lparr>handlerHeader := h\<rparr>)
      in Write (err @ [CHR 0x0A]) w1)"

section \<open>Template parsing and execution\<close>

text \<open>
  The file system and the \<^verbatim>\<open>html/template\<close> engine are the environment of the
  handler: \<open>ReadFile\<close> is \<^verbatim>\<open>os.ReadFile\<close> (the error text or the content of the file),
  \<open>Parse\<close> parses the text of the template with the given name (the error text or
  the parsed template, of an arbitrary type \<open>'t\<close>), and \<open>Execute\<close> runs a parsed
  template set on a page: it gives the chunks it wrote to the response, in order, and the
  error that stopped it, if any.
\<close>

record 't Template =
  tname :: string
  trees :: "(string \<times> 't) list"

record 't TemplateEnv =
  ReadFile :: "string \<Rightarrow> string + string"
  Parse :: "string \<Rightarrow> string \<Rightarrow> string + 't"
  Execute :: "'t Template \<Rightarrow> Page \<Rightarrow> string list \<times> string option"

definition New :: "string \<Rightarrow> 't Template" where
  "New n = \<lparr>tname = n, trees = []\<rparr>"

text \<open>
  \<^verbatim>\<open>template.ParseFiles\<close>: the files are read and parsed one after the other, each under
  the base name of its path; the first failure, of a read or of a parse, is returned and
  nothing after it is read. The template returned carries the name of the first file.
\<close>

fun parse_loop :: "'t TemplateEnv \<Rightarrow> 't Template \<Rightarrow> string list \<Rightarrow> string + 't Template" where
  "parse_loop env t [] = Inr t"
| "parse_loop env t (filename # filenames) =
     (case ReadFile env filename of
        Inl err \<Rightarrow> Inl err
      | Inr s \<Rightarrow>
          (case Parse env (Base filename) s of
             Inl err \<Rightarrow> Inl err
           | Inr tree \<Rightarrow>
               parse_loop env (t\<lparr>trees := AList.update (Base filename) tree (trees t)\<rparr>)
                 filenames))"

definition ParseFiles :: "'t TemplateEnv \<Rightarrow> string list \<Rightarrow> string + 't Template" where
  "ParseFiles env filenames =
     (case filenames of
        [] \<Rightarrow> Inl ''html/template: no files named in call to ParseFiles''
      | filename # _ \<Rightarrow> parse_loop env (New (Base filename)) filenames)"

section \<open>The handler\<close>

text \<open>
  What \<^verbatim>\<open>serveTemplate\<close> does is recorded next to the response: the file names it hands
  to \<^verbatim>\<open>ParseFiles\<close> and the page it hands to \<^verbatim>\<open>Execute\<close>.
\<close>

datatype Call = ParseFilesCall "string list" | ExecuteCall Page

record Served =
  resp :: ResponseWriter
  calls :: "Call list"

definition templateName :: "string \<Rightarrow> string" where
  "templateName path =
     (let templateName = Base path
      in if templateName = ''/'' then ''index.html'' else templateName)"

definition templatePath :: "string \<Rightarrow> string" where
  "templatePath path = Join [''templates'', templateName path]"

definition serveTemplate :: "'t TemplateEnv \<Rightarrow> ResponseWriter \<Rightarrow> Request \<Rightarrow> Served" where
  "serveTemplate env w r =
     (let p = \<lparr>Logged = True,
               User = Some (zero_User\<lparr>FirstName := ''Mario'', LastName := ''Rossi'',
                                       UserName := ''mario'', UniqueID := 1\<rparr>)\<rparr>;
          files = [templatePath (URL_Path r), ''templates/footer.gohtml'',
                   ''templates/header.gohtml'']
      in case ParseFiles env files of
           Inl err \<Rightarrow>
             \<lparr>resp = http_Error w err StatusInternalServerError,
              calls = [ParseFilesCall files]\<rparr>
         | Inr tmpl \<Rightarrow>
             (case Execute env tmpl p of
                (chunks, err) \<Rightarrow>
                  let w1 = fold Write chunks w
                  in \<lparr>resp = (case err of
                                None \<Rightarrow> w1
                              | Some e \<Rightarrow> http_Error w1 e StatusInternalServerError),
                      calls = [ParseFilesCall files, ExecuteCall p]\<rparr>))"

text \<open>
  The files \<^verbatim>\<open>serveTemplate\<close> hands to \<^verbatim>\<open>ParseFiles\<close> for a request, and the page
  it builds, written out with the zero values of the fields the literal omits.
\<close>

definition template_files :: "Request \<Rightarrow> string list" where
  "template_files r =
     [templatePath (URL_Path r), ''templates/footer.gohtml'', ''templates/header.gohtml'']"

abbreviation the_page :: Page where
  "the_page \<equiv>
     \<lparr>Logged = True,
      User = Some \<lparr>FirstName = ''Mario'', LastName = ''Rossi'', UserName = ''mario'',
                    UniqueID = 1, Questions = [], Answers = [], Notifications = [],
                    Password = [], UserTags = [], UserType = [], UserImage = [],
                    SuperUser = False, ModTags = [], ModQuestions = [], Badges = []\<rparr>\<rparr>"

section \<open>The bootstrap of the store\<close>

text \<open>
  A raw string literal of the source, given by its lines (each with the number of tabs it
  is indented by) and the number of tabs before the closing back quote: the literal
  starts with a line feed and every line is on a line of its own.
\<close>

definition go_raw :: "nat \<Rightarrow> (nat \<times> string) list \<Rightarrow> string" where
  "go_raw k ls =
     concat (map (\<lambda>(n, l). CHR 0x0A # replicate n (CHR 0x09) @ l) ls)
       @ CHR 0x0A # replicate k (CHR 0x09)"

text \<open>The five statements of \<^verbatim>\<open>createDatabase\<close>.\<close>

definition createDatabase_sqlStmt :: string where
  \<open>createDatabase_sqlStmt = go_raw 2
     [(2, ''create table users (''),
      (3, ''id integer not null primary key autoincrement,''),
      (3, ''first_name text,''),
      (3, ''last_name text,''),
      (3, ''username text,''),
      (3, ''unique_id int,''),
      (3, ''password text,''),
      (3, ''user_tags text,''),
      (3, ''user_type text,''),
      (3, ''user_image text,''),
      (3, ''super_user bool,''),
      (3, ''mod_tags text,''),
      (3, ''mod_questions text,''),
      (3, ''badges text''),
      (2, '');'')]\<close>
definition createDatabase_sqlStmt2 :: string where
  \<open>createDatabase_sqlStmt2 = go_raw 2
     [(2, ''create table questions (''),
      (3, ''id integer not null primary key autoincrement,''),
      (3, ''heading text,''),
      (3, ''body text,''),
      (3, ''tags text,''),
      (3, ''image text,''),
      (3, ''date text,''),
      (3, ''time text,''),
      (3, ''user text,''),
      (3, ''answers text,''),
      (3, ''votes text,''),
      (3, ''views int,''),
      (3, ''open bool''),
      (2, '');'')]\<close>
definition createDatabase_sqlStmt3 :: string where
  \<open>createDatabase_sqlStmt3 = go_raw 2
     [(2, ''create table answers (''),
      (3, ''id integer not null primary key autoincrement,''),
      (3, ''body text,''),
      (3, ''date text,''),
      (3, ''time text,''),
      (3, ''user text,''),
      (3, ''votes text,''),
      (3, ''views int,''),
      (3, ''qn int''),
      (2, '');'')]\<close>
definition createDatabase_sqlStmt4 :: string where
  \<open>createDatabase_sqlStmt4 = go_raw 2
     [(2, ''create table tags (''),
      (3, ''id integer not null primary key autoincrement,''),
      (3, ''name text''),
      (3, ''desc text''),
      (2, '');'')]\<close>
definition createDatabase_sqlStmt5 :: string where
  \<open>createDatabase_sqlStmt5 = go_raw 2
     [(2, ''create table badges (''),
      (3, ''id integer not null primary key autoincrement,''),
      (3, ''name text,''),
      (3, ''description text,''),
      (3, ''users text''),
      (2, '');'')]\<close>
text \<open>The five statements of \<^verbatim>\<open>createSampleData\<close>.\<close>

definition createSampleData_sqlStmt :: string where
  \<open>createSampleData_sqlStmt = go_raw 1
     [(1, ''insert into users (first_name, last_name, username, unique_id, password, user_tags, user_type, user_image, super_user, mod_tags, mod_questions, badges)''),
      (1, ''values ("Sagar", "Yadav", "sagaryadav", 1, "password", "", "", "", false, "", "", "");'')]\<close>
definition createSampleData_sqlStmt2 :: string where
  \<open>createSampleData_sqlStmt2 = go_raw 1
     [(1, ''insert into questions (heading, body, tags, image, date, time, user, answers, votes, views, open)''),
      (1, ''values ("How to use Go", "Go is a programming language", "go, programming", "", "", "", "sagaryadav", "", "", 0, true);'')]\<close>
definition createSampleData_sqlStmt3 :: string where
  \<open>createSampleData_sqlStmt3 = go_raw 1
     [(1, ''insert into answers (body, date, time, user, votes, views, qn)''),
      (1, ''values ("Go is a programming language", "", "", "sagaryadav", "", 0, 1);'')]\<close>
definition createSampleData_sqlStmt4 :: string where
  \<open>createSampleData_sqlStmt4 = go_raw 1
     [(1, ''insert into tags (name, desc)''),
      (1, ''values ("Go", "Go is a programming language made by Google");'')]\<close>
definition createSampleData_sqlStmt5 :: string where
  \<open>createSampleData_sqlStmt5 = go_raw 1
     [(1, ''insert into badges (name, description, users)''),
      (1, ''values ("Curious", "Asks questions", "sagaryadav");'')]\<close>

text \<open>
  The environment of the bootstrap: \<open>Stat\<close> is \<^verbatim>\<open>os.Stat\<close> on a path,
  \<open>DriverExec\<close> is what the driver answers to a query and its bind arguments on the
  store with the given data source name (an error text, or nothing), and
  \<open>DriverClose\<close> what it answers when the handle is closed.
\<close>

datatype stat_result = StatOk | StatNotExist | StatError string

record BootEnv =
  Stat :: "string \<Rightarrow> stat_result"
  DriverExec :: "string \<Rightarrow> string \<Rightarrow> string list \<Rightarrow> string option"
  DriverClose :: "string \<Rightarrow> string option"

text \<open>
  The process: the bytes printed to standard output, the calls of \<^verbatim>\<open>Exec\<close> that
  reached the driver (query first, then the bind arguments), the number of handles
  closed, the routes registered and the address \<^verbatim>\<open>ListenAndServe\<close> was called with.
\<close>

record Process =
  stdout :: string
  execs :: "(string \<times> string list) list"
  closes :: nat
  routes :: "string list"
  listenCalled :: "string option"

definition NewProcess :: Process where
  "NewProcess = \<lparr>stdout = [], execs = [], closes = 0, routes = [], listenCalled = None\<rparr>"

text \<open>A call returns, or panics and the process dies.\<close>

datatype 'a Go = Return 'a | Panic string

definition Println :: "string \<Rightarrow> Process \<Rightarrow> Process" where
  "Println a s = s\<lparr>stdout := stdout s @ a @ [CHR 0x0A]\<rparr>"

text \<open>
  \<^verbatim>\<open>database/sql\<close>. The blank import of \<^verbatim>\<open>github.com/mattn/go-sqlite3\<close> registers the
  driver \<^verbatim>\<open>sqlite3\<close>. \<^verbatim>\<open>sql.Open\<close> only looks the driver up: it gives a handle, or nil and
  an error for a name that is not registered; no connection is made before the first
  query. \<^verbatim>\<open>Exec(query, args...)\<close> sends ONE query, with the values of \<open>args\<close> for its
  placeholders. A method called on the nil handle panics.
\<close>

record DB =
  driverName :: string
  dataSourceName :: string

definition drivers :: "string list" where
  "drivers = [''sqlite3'']"

definition sql_Open :: "string \<Rightarrow> string \<Rightarrow> DB option \<times> string option" where
  \<open>sql_Open dn dsn =
     (if dn \<in> set drivers then (Some \<lparr>driverName = dn, dataSourceName = dsn\<rparr>, None)
      else (None, Some (''sql: unknown driver "'' @ dn @ ''" (forgotten import?)'')))\<close>

definition nil_dereference :: string where
  "nil_dereference = ''runtime error: invalid memory address or nil pointer dereference''"

definition db_Exec ::
  "BootEnv \<Rightarrow> DB option \<Rightarrow> string \<Rightarrow> string list \<Rightarrow> Process \<Rightarrow> (string option \<times> Process) Go" where
  "db_Exec env db query args s =
     (case db of
        None \<Rightarrow> Panic nil_dereference
      | Some d \<Rightarrow>
          Return (DriverExec env (dataSourceName d) query args,
                  s\<lparr>execs := execs s @ [(query, args)]\<rparr>))"

definition db_Close :: "BootEnv \<Rightarrow> DB option \<Rightarrow> Process \<Rightarrow> (string option \<times> Process) Go" where
  "db_Close env db s =
     (case db of
        None \<Rightarrow> Panic nil_dereference
      | Some d \<Rightarrow> Return (DriverClose env (dataSourceName d), s\<lparr>closes := Suc (closes s)\<rparr>))"

text \<open>
  \<^verbatim>\<open>createDatabase\<close>. The deferred \<^verbatim>\<open>db.Close()\<close> runs when the body returns; what it
  returns is dropped.
\<close>

definition createDatabase :: "BootEnv \<Rightarrow> Process \<Rightarrow> Process Go" where
  "createDatabase env s =
     (case Stat env ''qaApp.db'' of
        StatNotExist \<Rightarrow>
          (case sql_Open ''sqlite3'' ''qaApp.db'' of
             (db, err) \<Rightarrow>
               let s1 = (case err of Some e \<Rightarrow> Println e s | None \<Rightarrow> s)
               in case db_Exec env db createDatabase_sqlStmt
                         [createDatabase_sqlStmt2, createDatabase_sqlStmt3,
                          createDatabase_sqlStmt4, createDatabase_sqlStmt5] s1 of
                    Panic m \<Rightarrow> Panic m
                  | Return (err2, s2) \<Rightarrow>
                      let s3 = (case err2 of Some e \<Rightarrow> Println e s2 | None \<Rightarrow> s2)
                      in (case db_Close env db s3 of
                            Panic m \<Rightarrow> Panic m
                          | Return (_, s4) \<Rightarrow> Return s4))
      | _ \<Rightarrow> Return s)"

definition createSampleData :: "BootEnv \<Rightarrow> Process \<Rightarrow> Process Go" where
  "createSampleData env s =
     (case sql_Open ''sqlite3'' ''qaApp.db'' of
        (db, err) \<Rightarrow>
          let s1 = (case err of Some e \<Rightarrow> Println e s | None \<Rightarrow> s)
          in case db_Exec env db createSampleData_sqlStmt
                    [createSampleData_sqlStmt2, createSampleData_sqlStmt3,
                     createSampleData_sqlStmt4, createSampleData_sqlStmt5] s1 of
               Panic m \<Rightarrow> Panic m
             | Return (err2, s2) \<Rightarrow>
                 let s3 = (case err2 of Some e \<Rightarrow> Println e s2 | None \<Rightarrow> s2)
                 in (case db_Close env db s3 of
                       Panic m \<Rightarrow> Panic m
                     | Return (_, s4) \<Rightarrow> Return s4))"

text \<open>
  \<^verbatim>\<open>main\<close>, up to its call of \<^verbatim>\<open>http.ListenAndServe\<close>: the bootstrap, the two routes,
  the line printed, and the address the listener is started on.
\<close>

definition main :: "BootEnv \<Rightarrow> Process \<Rightarrow> Process Go" where
  "main env s =
     (case createDatabase env s of
        Panic m \<Rightarrow> Panic m
      | Return s1 \<Rightarrow>
          (case createSampleData env s1 of
             Panic m \<Rightarrow> Panic m
           | Return s2 \<Rightarrow>
               let s3 = s2\<lparr>routes := routes s2 @ [''/static/'', ''/'']\<rparr>;
                   s4 = Println ''Click on http://localhost:8080'' s3
               in Return (s4\<lparr>listenCalled := Some '':8080''\<rparr>)))"

text \<open>
  The bind arguments of the two calls of \<^verbatim>\<open>Exec\<close>, and what \<^verbatim>\<open>fmt.Println(err)\<close>
  adds to standard output after a call that answered \<open>err\<close>.
\<close>

abbreviation createDatabase_args :: "string list" where
  "createDatabase_args \<equiv>
     [createDatabase_sqlStmt2, createDatabase_sqlStmt3, createDatabase_sqlStmt4,
      createDatabase_sqlStmt5]"

abbreviation createSampleData_args :: "string list" where
  "createSampleData_args \<equiv>
     [createSampleData_sqlStmt2, createSampleData_sqlStmt3, createSampleData_sqlStmt4,
      createSampleData_sqlStmt5]"

definition logged :: "string option \<Rightarrow> string" where
  "logged err = (case err of None \<Rightarrow> [] | Some e \<Rightarrow> e @ [CHR 0x0A])"

section \<open>The specification's vocabulary\<close>

text \<open>
  The specification speaks of the segments of a request path. A path splits into segments
  at every \<^verbatim>\<open>/\<close>; the final segment is the last of them (the text after the last
  \<^verbatim>\<open>/\<close>), and it is empty when the path ends in \<^verbatim>\<open>/\<close>.
\<close>

fun split_where :: "(char \<Rightarrow> bool) \<Rightarrow> string \<Rightarrow> string list" where
  "split_where P [] = [[]]"
| "split_where P (x # xs) =
     (if P x then [] # split_where P xs
      else (case split_where P xs of [] \<Rightarrow> [[x]] | y # ys \<Rightarrow> (x # y) # ys))"

definition segments :: "string \<Rightarrow> string list" where
  "segments p = split_where (\<lambda>c. c = CHR ''/'') p"

definition final_segment :: "string \<Rightarrow> string" where
  "final_segment p = last (segments p)"

definition nonempty_segments :: "string \<Rightarrow> string list" where
  "nonempty_segments p = filter (\<lambda>s. s \<noteq> []) (segments p)"

text \<open>
  The template name as the specification words it: the final path segment, and the
  default name for the root path.
\<close>

definition spec_templateName :: "string \<Rightarrow> string" where
  "spec_templateName p = (if p = ''/'' then ''index.html'' else final_segment p)"

text \<open>
  A path that names something inside the template directory: \<^verbatim>\<open>templates\<close>, then at
  least one more segment, and every such segment a proper name (not empty, not \<^verbatim>\<open>.\<close>,
  not \<^verbatim>\<open>..\<close>).
\<close>

definition proper_name :: "string \<Rightarrow> bool" where
  "proper_name s = (s \<noteq> [] \<and> s \<noteq> ''.'' \<and> s \<noteq> ''..'')"

definition inside_templates :: "string \<Rightarrow> bool" where
  "inside_templates q =
     (case segments q of
        d # n # ns \<Rightarrow> d = ''templates'' \<and> list_all proper_name (n # ns)
      | _ \<Rightarrow> False)"

text \<open>
  A strict reading of a \<^verbatim>\<open>create table\<close> statement: the column definitions stand
  between the parentheses, separated by commas, and each is a column name, one type name
  and then column constraints only.
\<close>

definition is_space :: "char \<Rightarrow> bool" where
  "is_space c = (c = CHR '' '' \<or> c = CHR 0x09 \<or> c = CHR 0x0A \<or> c = CHR 0x0D)"

definition fields :: "string \<Rightarrow> string list" where
  "fields s = filter (\<lambda>w. w \<noteq> []) (split_where is_space s)"

definition column_list :: "string \<Rightarrow> string" where
  "column_list stmt =
     rev (drop 1 (dropWhile (\<lambda>c. c \<noteq> CHR '')'')
       (rev (drop 1 (dropWhile (\<lambda>c. c \<noteq> CHR ''('') stmt)))))"

definition column_defs :: "string \<Rightarrow> string list list" where
  "column_defs stmt = map fields (split_where (\<lambda>c. c = CHR '','') (column_list stmt))"

definition type_names :: "string list" where
  "type_names = [''integer'', ''int'', ''text'', ''bool'']"

definition constraint_words :: "string list" where
  "constraint_words = [''not'', ''null'', ''primary'', ''key'', ''autoincrement'']"

definition strict_column :: "string list \<Rightarrow> bool" where
  "strict_column ws =
     (case ws of
        n # t # cs \<Rightarrow> List.member type_names t \<and> list_all (List.member constraint_words) cs
      | _ \<Rightarrow> False)"

definition strict_create_table :: "string \<Rightarrow> bool" where
  "strict_create_table stmt =
     (case fields (takeWhile (\<lambda>c. c \<noteq> CHR ''('') stmt) of
        [c, t, n] \<Rightarrow> c = ''create'' \<and> t = ''table'' \<and> list_all strict_column (column_defs stmt)
      | _ \<Rightarrow> False)"

text \<open>The statement for the tags table with the comma put in, for comparison.\<close>

definition tags_with_separator :: string where
  "tags_with_separator = go_raw 2
     [(2, ''create table tags (''),
      (3, ''id integer not null primary key autoincrement,''),
      (3, ''name text,''),
      (3, ''desc text''),
      (2, '');'')]"

section \<open>Concrete environments\<close>

text \<open>
  A template directory with the index page and the two fragments, an engine that keeps
  the text of a template as its parsed form and greets the user of the page, and a
  request for a path.
\<close>

definition no_such_file :: "string \<Rightarrow> string" where
  "no_such_file f = ''open '' @ f @ '': no such file or directory''"

definition demo_ReadFile :: "string \<Rightarrow> string + string" where
  "demo_ReadFile f =
     (if f = ''templates/index.html'' then Inr ''Hello {{.User.FirstName}}''
      else if f = ''templates/footer.gohtml'' then Inr ''<footer>qaapp</footer>''
      else if f = ''templates/header.gohtml'' then Inr ''<header>qaapp</header>''
      else Inl (no_such_file f))"

definition demo_Execute :: "string Template \<Rightarrow> Page \<Rightarrow> string list \<times> string option" where
  "demo_Execute t p =
     (case User p of
        None \<Rightarrow> ([''Hello ''], Some ''nil pointer evaluating User.FirstName'')
      | Some u \<Rightarrow> ([''Hello '', FirstName u], None))"

definition demo_env :: "string TemplateEnv" where
  "demo_env = \<lparr>ReadFile = demo_ReadFile, Parse = (\<lambda>n s. Inr s), Execute = demo_Execute\<rparr>"

definition demo_request :: "string \<Rightarrow> string \<Rightarrow> Request" where
  "demo_request m path =
     \<lparr>Method = m, URL_Path = path, Header = [], Body = [], RemoteAddr = ''127.0.0.1:40000''\<rparr>"

text \<open>
  The same directory with a header fragment that does not parse, and an engine that
  fails in the middle of the page, after it has written the beginning.
\<close>

definition malformed_env :: "string TemplateEnv" where
  "malformed_env =
     demo_env\<lparr>Parse := (\<lambda>n s. if n = ''header.gohtml''
                                then Inl ''template: header.gohtml:1: unexpected EOF''
                                else Inr s)\<rparr>"

definition failing_Execute :: "string Template \<Rightarrow> Page \<Rightarrow> string list \<times> string option" where
  "failing_Execute t p =
     ([''<header>qaapp</header>'', ''Hello ''],
      Some ''template: index.html:1:15: no field Name in type *main.User'')"

text \<open>
  A first start of the process: no store file, and a driver that accepts every query; and
  a start on which the driver refuses every query.
\<close>

definition first_start :: BootEnv where
  "first_start =
     \<lparr>Stat = (\<lambda>f. StatNotExist), DriverExec = (\<lambda>dsn q args. None),
      DriverClose = (\<lambda>dsn. None)\<rparr>"



definition luigi_request :: Request where
  "luigi_request =
     \<lparr>Method = ''POST'', URL_Path = ''/index.html'', Header = [(''Cookie'', [''user=luigi''])],
      Body = ''first_name=Luigi'', RemoteAddr = ''10.0.0.7:51234''\<rparr>"

section \<open>The path functions on the examples of their package\<close>

text \<open>
  The definitions above give what \<^verbatim>\<open>path/filepath\<close> documents and tests for
  \<^verbatim>\<open>Clean\<close>, \<^verbatim>\<open>Base\<close> and \<^verbatim>\<open>Join\<close> on Unix.
\<close>

lemma Clean_table:
  "map Clean ['''', ''abc'', ''abc/def'', ''a/b/c'', ''.'', ''..'', ''../..'',
   ''../../abc'', ''/abc'', ''/'', ''abc/'', ''abc/def/'', ''a/b/c/'', ''./'', ''../'',
   ''../../'', ''/abc/'', ''abc//def//ghi'', ''//abc'', ''///abc'', ''//abc//'',
   ''abc//'', ''abc/./def'', ''/./abc/def'', ''abc/.'', ''abc/def/ghi/../jkl'',
   ''abc/def/../ghi/../jkl'', ''abc/def/..'', ''abc/def/../..'', ''/abc/def/../..'',
   ''abc/def/../../..'', ''/abc/def/../../..'',
   ''abc/def/../../../ghi/jkl/../../../mno'', ''/../abc'', ''abc/./../def'',
   ''abc//./../def'', ''abc/../../././../def''] =
     [''.'', ''abc'', ''abc/def'', ''a/b/c'', ''.'', ''..'', ''../..'', ''../../abc'',
     ''/abc'', ''/'', ''abc'', ''abc/def'', ''a/b/c'', ''.'', ''..'', ''../..'',
     ''/abc'', ''abc/def/ghi'', ''/abc'', ''/abc'', ''/abc'', ''abc'', ''abc/def'',
     ''/abc/def'', ''abc'', ''abc/def/jkl'', ''abc/jkl'', ''abc'', ''.'', ''/'', ''..'',
     ''/'', ''../../mno'', ''/abc'', ''def'', ''def'', ''../../def'']"
  by code_simp

lemma Base_table:
  "map Base ['''', ''.'', ''/.'', ''/'', ''////'', ''x/'', ''abc'', ''abc/def'',
   ''a/b/.x'', ''a/b/c.'', ''a/b/c.x''] =
     [''.'', ''.'', ''.'', ''/'', ''/'', ''x'', ''abc'', ''def'', ''.x'', ''c.'',
     ''c.x'']"
  by code_simp

lemma Join_table:
  "map Join [[], [''''], [''a''], [''a'', ''b''], [''a'', ''''], ['''', ''b''], [''/'',
   ''a''], [''/'', ''''], [''a/'', ''b''], [''a/'', ''''], ['''', ''''], [''/'', ''a'',
   ''b'']] =
     ['''', '''', ''a'', ''a/b'', ''a'', ''b'', ''/a'', ''/'', ''a/b'', ''a'', '''',
     ''/a/b'']"
  by code_simp

section \<open>Facts about the segments of a path\<close>

lemma split_where_not_Nil: "split_where P xs \<noteq> []"
  by (induction xs) (auto split: list.splits)

lemma split_where_snoc:
  "split_where P (xs @ [x]) =
     (if P x then split_where P xs @ [[]]
      else butlast (split_where P xs) @ [last (split_where P xs) @ [x]])"
proof (induction xs)
  case Nil
  show ?case by simp
next
  case (Cons a xs)
  obtain y ys where s: "split_where P xs = y # ys"
    using split_where_not_Nil [of P xs] by (cases "split_where P xs") auto
  show ?case
  proof (cases "P x")
    case True
    with Cons s show ?thesis by (simp split: list.splits)
  next
    case False
    with Cons s split_where_not_Nil [of P xs] show ?thesis
      by (auto split: list.splits simp: butlast_append)
  qed
qed

lemma split_where_none: "\<forall>x\<in>set xs. \<not> P x \<Longrightarrow> split_where P xs = [xs]"
  by (induction xs) auto

lemma strip_trailing_snoc:
  "strip_trailing (xs @ [x]) = (if IsPathSeparator x then strip_trailing xs else xs @ [x])"
  by (simp add: strip_trailing_def)

lemma last_element_snoc:
  "last_element (xs @ [x]) = (if IsPathSeparator x then [] else last_element xs @ [x])"
  by (simp add: last_element_def)

lemma last_segments: "last (segments p) = last_element p"
proof (induction p rule: rev_induct)
  case Nil
  show ?case by (simp add: segments_def last_element_def)
next
  case (snoc x xs)
  then show ?case
    by (simp add: segments_def split_where_snoc last_element_snoc IsPathSeparator_def
          Separator_def)
qed

lemma nonempty_segments_snoc:
  "nonempty_segments (xs @ [x]) =
     (if x = CHR ''/'' then nonempty_segments xs
      else filter (\<lambda>s. s \<noteq> []) (butlast (segments xs)) @ [last_element xs @ [x]])"
  by (simp add: nonempty_segments_def segments_def split_where_snoc
        last_segments [unfolded segments_def])

lemma nonempty_segments_Nil_iff: "nonempty_segments p = [] \<longleftrightarrow> set p \<subseteq> {CHR ''/''}"
  by (induction p rule: rev_induct)
     (auto simp: nonempty_segments_snoc, simp add: nonempty_segments_def segments_def)

lemma last_nonempty_segments:
  "nonempty_segments p \<noteq> [] \<Longrightarrow> last (nonempty_segments p) = last_element (strip_trailing p)"
proof (induction p rule: rev_induct)
  case Nil
  then show ?case by (simp add: nonempty_segments_def segments_def)
next
  case (snoc x xs)
  then show ?case
    by (auto simp: nonempty_segments_snoc strip_trailing_snoc last_element_snoc
          IsPathSeparator_def Separator_def)
qed

lemma last_element_strip_Nil_iff:
  "last_element (strip_trailing p) = [] \<longleftrightarrow> set p \<subseteq> {CHR ''/''}"
  by (induction p rule: rev_induct)
     (auto simp: strip_trailing_snoc last_element_snoc IsPathSeparator_def Separator_def
        strip_trailing_def last_element_def)

lemma Base_eq:
  "Base p =
     (if p = [] then ''.''
      else if nonempty_segments p = [] then ''/''
      else last (nonempty_segments p))"
  using last_element_strip_Nil_iff [of p] nonempty_segments_Nil_iff [of p]
  by (auto simp: Base_def Let_def last_nonempty_segments Separator_def)

lemma nonempty_segments_not_root:
  "nonempty_segments p \<noteq> [] \<Longrightarrow> last (nonempty_segments p) \<noteq> ''/''"
proof -
  assume "nonempty_segments p \<noteq> []"
  then have "last (nonempty_segments p) = last_element (strip_trailing p)"
    by (rule last_nonempty_segments)
  moreover have "Separator \<notin> set (last_element (strip_trailing p))"
    by (auto simp: last_element_def IsPathSeparator_def dest: set_takeWhileD)
  ultimately show ?thesis by (auto simp: Separator_def)
qed

lemma templateName_eq:
  "templateName p =
     (if p = [] then ''.''
      else if nonempty_segments p = [] then ''index.html''
      else last (nonempty_segments p))"
  using nonempty_segments_not_root [of p] by (simp add: templateName_def Base_eq)

section \<open>Cleaning the joined path\<close>

lemma last_element_no_sep: "Separator \<notin> set (last_element q)"
  by (auto simp: last_element_def IsPathSeparator_def dest: set_takeWhileD)

lemma templateName_no_sep: "templateName p \<noteq> [] \<and> Separator \<notin> set (templateName p)"
  using last_element_no_sep [of "strip_trailing p"]
  by (auto simp: templateName_def Base_def Let_def Separator_def)

lemma clean_loop_Nil: "clean_loop rooted [] out dotdot = out"
  by (simp add: clean_loop.simps(1))

lemma clean_loop_sep:
  "clean_loop rooted (Separator # cs) out dotdot = clean_loop rooted cs out dotdot"
  by (subst clean_loop.simps(2) [of rooted Separator cs out dotdot])
     (simp add: IsPathSeparator_def)

lemma clean_loop_elem:
  assumes "c \<noteq> Separator"
    and "c = CHR ''.'' \<Longrightarrow> \<not> elem_ends cs"
    and "c = CHR ''.'' \<Longrightarrow> cs \<noteq> [] \<Longrightarrow> hd cs = CHR ''.'' \<Longrightarrow> \<not> elem_ends (tl cs)"
  shows "clean_loop False (c # cs) out dotdot =
           clean_loop False (dropWhile (\<lambda>d. \<not> IsPathSeparator d) cs)
             ((if out = [] then [] else out @ [Separator])
                @ c # takeWhile (\<lambda>d. \<not> IsPathSeparator d) cs) dotdot"
  using assms
  by (subst clean_loop.simps(2) [of False c cs out dotdot]) (auto simp: IsPathSeparator_def)

lemma no_sep_takeWhile:
  "Separator \<notin> set cs \<Longrightarrow> takeWhile (\<lambda>d. \<not> IsPathSeparator d) cs = cs"
  by (induction cs) (auto simp: IsPathSeparator_def)

lemma no_sep_dropWhile:
  "Separator \<notin> set cs \<Longrightarrow> dropWhile (\<lambda>d. \<not> IsPathSeparator d) cs = []"
  by (induction cs) (auto simp: IsPathSeparator_def)

lemma no_sep_elem_ends: "Separator \<notin> set cs \<Longrightarrow> elem_ends cs \<longleftrightarrow> cs = []"
  by (auto simp: elem_ends_def IsPathSeparator_def split: list.splits)

lemma clean_loop_templates:
  "clean_loop False (''templates/'' @ n) [] 0 = clean_loop False n ''templates'' 0"
proof -
  have "clean_loop False (CHR ''t'' # ''emplates/'' @ n) [] 0
          = clean_loop False (Separator # n) ''templates'' 0"
    by (subst clean_loop_elem) (simp_all add: IsPathSeparator_def Separator_def)
  then show ?thesis by (simp add: clean_loop_sep)
qed

lemma clean_loop_name:
  assumes "n \<noteq> []" "Separator \<notin> set n"
  shows "clean_loop False n ''templates'' 0 =
           (if n = ''.'' then ''templates'' else if n = ''..'' then [] else ''templates/'' @ n)"
proof (cases n)
  case Nil
  with assms show ?thesis by simp
next
  case n: (Cons c cs)
  with assms have c: "c \<noteq> Separator" and cs: "Separator \<notin> set cs" by auto
  show ?thesis
  proof (cases "n = ''.'' \<or> n = ''..''")
    case True
    have "clean_loop False ''.'' ''templates'' 0 = ''templates''" by code_simp
    moreover have "clean_loop False ''..'' ''templates'' 0 = []" by code_simp
    ultimately show ?thesis using True by auto
  next
    case False
    have "clean_loop False (c # cs) ''templates'' 0 =
            clean_loop False [] (''templates/'' @ c # cs) 0"
    proof (subst clean_loop_elem)
      show "c \<noteq> Separator" by (rule c)
      show "\<not> elem_ends cs" if "c = CHR ''.''"
        using that False n cs by (simp add: no_sep_elem_ends)
      show "\<not> elem_ends (tl cs)" if "c = CHR ''.''" "cs \<noteq> []" "hd cs = CHR ''.''"
      proof -
        from cs that(2) have "Separator \<notin> set (tl cs)" by (cases cs) auto
        moreover from that False n have "tl cs \<noteq> []" by (cases cs) auto
        ultimately show ?thesis by (simp add: no_sep_elem_ends)
      qed
      show "clean_loop False (dropWhile (\<lambda>d. \<not> IsPathSeparator d) cs)
              ((if ''templates'' = [] then [] else ''templates'' @ [Separator])
                 @ c # takeWhile (\<lambda>d. \<not> IsPathSeparator d) cs) 0 =
            clean_loop False [] (''templates/'' @ c # cs) 0"
        using cs by (simp add: no_sep_takeWhile no_sep_dropWhile Separator_def)
    qed
    with False n show ?thesis by (simp add: clean_loop_Nil)
  qed
qed

lemma Join_templates:
  assumes "n \<noteq> []" "Separator \<notin> set n"
  shows "Join [''templates'', n] =
           (if n = ''.'' then ''templates'' else if n = ''..'' then ''.'' else ''templates/'' @ n)"
proof -
  have "Join [''templates'', n] = Clean (''templates/'' @ n)"
    by (simp add: Separator_def)
  also have "\<dots> = (let out = clean_loop False n ''templates'' 0 in if out = [] then ''.'' else out)"
    using clean_loop_templates [of n]
    by (simp add: Clean_def IsPathSeparator_def Separator_def)
  finally show ?thesis using assms by (simp add: clean_loop_name Let_def)
qed

lemma templatePath_eq:
  "templatePath p =
     (if templateName p = ''.'' then ''templates''
      else if templateName p = ''..'' then ''.''
      else ''templates/'' @ templateName p)"
  using templateName_no_sep [of p] by (simp add: templatePath_def Join_templates del: Join.simps)

lemma segments_templates:
  assumes "Separator \<notin> set n"
  shows "segments (''templates/'' @ n) = [''templates'', n]"
proof -
  have "split_where (\<lambda>c. c = CHR ''/'') n = [n]"
    using assms by (intro split_where_none) (auto simp: Separator_def)
  then show ?thesis by (simp add: segments_def)
qed

lemma inside_templates_iff:
  "inside_templates (templatePath p) \<longleftrightarrow> templateName p \<noteq> ''.'' \<and> templateName p \<noteq> ''..''"
proof -
  have n: "templateName p \<noteq> []" "Separator \<notin> set (templateName p)"
    using templateName_no_sep [of p] by simp_all
  have a: "\<not> inside_templates ''templates''" by code_simp
  have b: "\<not> inside_templates ''.''" by code_simp
  have c: "inside_templates (''templates/'' @ templateName p)"
    if "templateName p \<noteq> ''.''" "templateName p \<noteq> ''..''"
    using that n segments_templates [of "templateName p"]
    by (simp add: inside_templates_def proper_name_def)
  show ?thesis using a b c by (auto simp: templatePath_eq)
qed

section \<open>The template resolver\<close>

text \<open>
  Claim C1, as the code has it. The template name is the last non-empty segment of the
  request path, so slashes at the end of the path are ignored; a path without a
  non-empty segment gives \<^verbatim>\<open>index.html\<close> when it is made of slashes (the root path
  \<^verbatim>\<open>/\<close> among them) and \<^verbatim>\<open>.\<close> when it is empty. The first file handed to the parser
  is \<^verbatim>\<open>filepath.Join("templates", name)\<close>, followed by the footer and the header.
\<close>

theorem templateName_resolved:
  "templateName (URL_Path r) =
     (if URL_Path r = [] then ''.''
      else if nonempty_segments (URL_Path r) = [] then ''index.html''
      else last (nonempty_segments (URL_Path r)))
   \<and> (\<exists>cs. calls (serveTemplate env w r) =
          ParseFilesCall [Join [''templates'', templateName (URL_Path r)],
                          ''templates/footer.gohtml'', ''templates/header.gohtml''] # cs)"
  by (simp add: templateName_eq serveTemplate_def templatePath_def Let_def
        split: sum.splits prod.splits del: Join.simps)

text \<open>
  Claim C1 as the specification words it (the final path segment, \<^verbatim>\<open>index.html\<close> for
  the root path only) fails on the path \<^verbatim>\<open>//\<close>: it is not the root path and its final
  segment is empty, and the handler resolves it to \<^verbatim>\<open>index.html\<close>. It fails as well on
  a path that ends in a slash, whose final segment is empty too, and on the empty path.
\<close>

theorem templateName_root_only_counterexample:
  "templateName ''//'' = ''index.html'' \<and> spec_templateName ''//'' = []
   \<and> templateName ''/questions/'' = ''questions'' \<and> spec_templateName ''/questions/'' = []
   \<and> templateName [] = ''.'' \<and> spec_templateName [] = []"
  by code_simp

text \<open>
  Claim C7, as the code has it. The name is free of \<^verbatim>\<open>/\<close>, and the path handed to the
  parser is \<^verbatim>\<open>templates/\<close> followed by the name, inside the template directory, unless
  the name is \<^verbatim>\<open>.\<close> (the path is then the template directory itself) or \<^verbatim>\<open>..\<close> (the
  path is then \<^verbatim>\<open>.\<close>, the directory above the template directory).
\<close>

theorem templatePath_resolved:
  "templatePath p =
     (if templateName p = ''.'' then ''templates''
      else if templateName p = ''..'' then ''.''
      else ''templates/'' @ templateName p)
   \<and> CHR ''/'' \<notin> set (templateName p)
   \<and> (inside_templates (templatePath p) \<longleftrightarrow>
        templateName p \<noteq> ''.'' \<and> templateName p \<noteq> ''..'')"
proof (intro conjI)
  show "templatePath p =
     (if templateName p = ''.'' then ''templates''
      else if templateName p = ''..'' then ''.''
      else ''templates/'' @ templateName p)"
    by (rule templatePath_eq)
  show "CHR ''/'' \<notin> set (templateName p)"
    using templateName_no_sep [of p] by (simp add: Separator_def)
  show "inside_templates (templatePath p) \<longleftrightarrow>
          templateName p \<noteq> ''.'' \<and> templateName p \<noteq> ''..''"
    by (rule inside_templates_iff)
qed

text \<open>
  Claim C7 as the specification words it (no request path leads out of the template
  directory) fails on the path \<^verbatim>\<open>/..\<close>: the base name \<^verbatim>\<open>..\<close> survives, and the join
  with \<^verbatim>\<open>templates\<close> is cleaned to \<^verbatim>\<open>.\<close>.
\<close>

theorem templatePath_escapes_counterexample:
  "templatePath ''/..'' = ''.'' \<and> \<not> inside_templates (templatePath ''/..'')"
  by code_simp

section \<open>Facts about the response writer and the parser\<close>

lemma http_Error_fresh:
  "status (http_Error NewWriter err code) = Some code
   \<and> body (http_Error NewWriter err code) = err @ [CHR 0x0A]"
  by (simp add: http_Error_def NewWriter_def WriteHeader_def Write_def status_def Let_def)

lemma ParseFiles_first_unreadable:
  "ReadFile env f = Inl err \<Longrightarrow> ParseFiles env (f # fs) = Inl err"
  by (simp add: ParseFiles_def)

lemma serveTemplate_parse_error:
  "ParseFiles env (template_files r) = Inl err \<Longrightarrow>
   serveTemplate env w r =
     \<lparr>resp = http_Error w err StatusInternalServerError,
      calls = [ParseFilesCall (template_files r)]\<rparr>"
  by (simp add: serveTemplate_def template_files_def Let_def)

lemma serveTemplate_parsed:
  "ParseFiles env (template_files r) = Inr t \<Longrightarrow>
   serveTemplate env w r =
     \<lparr>resp = (case snd (Execute env t the_page) of
                None \<Rightarrow> fold Write (fst (Execute env t the_page)) w
              | Some e \<Rightarrow> http_Error (fold Write (fst (Execute env t the_page)) w) e
                           StatusInternalServerError),
      calls = [ParseFilesCall (template_files r), ExecuteCall the_page]\<rparr>"
  by (cases "Execute env t the_page")
     (simp add: serveTemplate_def template_files_def Let_def zero_User_def split: option.splits)

lemma parse_loop_Execute_independent:
  "parse_loop (env\<lparr>Execute := ex\<rparr>) t fs = parse_loop env t fs"
  by (induction fs arbitrary: t) (auto split: sum.splits)

lemma ParseFiles_Execute_independent:
  "ParseFiles (env\<lparr>Execute := ex\<rparr>) fs = ParseFiles env fs"
  by (simp add: ParseFiles_def parse_loop_Execute_independent del: parse_loop.simps
        split: list.splits)

lemma body_fold_Write: "body (fold Write chunks w) = body w @ concat chunks"
  by (induction chunks arbitrary: w)
     (simp_all add: Write_def WriteHeader_def Let_def split: option.splits)

lemma Write_wrote:
  "wrote (Write c w) = (case wrote w of None \<Rightarrow> Some (StatusOK, handlerHeader w) | Some x \<Rightarrow> Some x)
   \<and> handlerHeader (Write c w) = handlerHeader w"
  by (simp add: Write_def WriteHeader_def Let_def split: option.splits)

lemma fold_Write_wrote:
  "handlerHeader (fold Write chunks w) = handlerHeader w
   \<and> wrote (fold Write chunks w) =
     (if chunks = [] then wrote w
      else case wrote w of None \<Rightarrow> Some (StatusOK, handlerHeader w) | Some x \<Rightarrow> Some x)"
proof (induction chunks arbitrary: w)
  case Nil
  show ?case by simp
next
  case (Cons c cs)
  show ?case by (simp add: Cons Write_wrote split: option.splits)
qed

lemma status_fold_Write:
  "status (fold Write chunks w) =
     (if chunks = [] then status w
      else case status w of None \<Rightarrow> Some StatusOK | Some c \<Rightarrow> Some c)"
  by (simp add: status_def fold_Write_wrote split: option.splits)

lemma status_http_Error:
  "status (http_Error w err code) = (case status w of None \<Rightarrow> Some code | Some c \<Rightarrow> Some c)"
  by (simp add: http_Error_def WriteHeader_def Write_def Let_def status_def split: option.splits)

lemma body_http_Error: "body (http_Error w err code) = body w @ err @ [CHR 0x0A]"
  by (simp add: http_Error_def WriteHeader_def Write_def Let_def split: option.splits)

lemma serveTemplate_execute_failure:
  assumes "ParseFiles env (template_files r) = Inr t"
    and "Execute env t the_page = (chunks, Some err)"
  shows "body (resp (serveTemplate env NewWriter r)) = concat chunks @ err @ [CHR 0x0A]
         \<and> status (resp (serveTemplate env NewWriter r)) = Some (if chunks = [] then 500 else 200)"
  using assms
  by (simp add: serveTemplate_parsed body_http_Error body_fold_Write status_http_Error
        status_fold_Write StatusOK_def StatusInternalServerError_def)
     (simp add: NewWriter_def status_def StatusOK_def)

section \<open>The handler's responses\<close>

text \<open>
  Claim C4, as the code has it. When the template set of a request does not parse (a
  file of the three cannot be read, or its text is malformed; in particular when there
  is no readable file for the template name), the handler answers a fresh response
  writer with status 500, and the body is the text of the error followed by a line feed:
  \<^verbatim>\<open>http.Error\<close> prints the message as a line.
\<close>

theorem serveTemplate_parse_failure:
  "(ParseFiles env (template_files r) = Inl err \<or>
    ReadFile env (templatePath (URL_Path r)) = Inl err) \<longrightarrow>
   status (resp (serveTemplate env NewWriter r)) = Some 500
   \<and> body (resp (serveTemplate env NewWriter r)) = err @ [CHR 0x0A]"
proof
  assume "ParseFiles env (template_files r) = Inl err \<or>
    ReadFile env (templatePath (URL_Path r)) = Inl err"
  then have "ParseFiles env (template_files r) = Inl err"
    by (auto simp: template_files_def ParseFiles_first_unreadable)
  then show "status (resp (serveTemplate env NewWriter r)) = Some 500
   \<and> body (resp (serveTemplate env NewWriter r)) = err @ [CHR 0x0A]"
    by (simp add: serveTemplate_parse_error http_Error_fresh StatusInternalServerError_def)
qed

text \<open>
  The theorem of claim C4 at a request for a page that does not exist.
\<close>

theorem serveTemplate_parse_failure_witness:
  "ReadFile demo_env (templatePath (URL_Path (demo_request ''GET'' ''/missing.html'')))
     = Inl (no_such_file ''templates/missing.html'')
   \<and> status (resp (serveTemplate demo_env NewWriter (demo_request ''GET'' ''/missing.html''))) = Some 500
   \<and> body (resp (serveTemplate demo_env NewWriter (demo_request ''GET'' ''/missing.html'')))
       = no_such_file ''templates/missing.html'' @ [CHR 0x0A]"
proof -
  have h: "ReadFile demo_env (templatePath (URL_Path (demo_request ''GET'' ''/missing.html'')))
     = Inl (no_such_file ''templates/missing.html'')"
    by code_simp
  show ?thesis
    using h serveTemplate_parse_failure
      [of demo_env "demo_request ''GET'' ''/missing.html''" "no_such_file ''templates/missing.html''"]
    by simp
qed

text \<open>
  Claim C4 as the specification words it (the body is the raw error text) fails on the
  request for \<^verbatim>\<open>/missing.html\<close>: the body is not the error text, it is one byte longer.
\<close>

theorem serveTemplate_error_body_counterexample:
  "ParseFiles demo_env (template_files (demo_request ''GET'' ''/missing.html''))
     = Inl ''open templates/missing.html: no such file or directory''
   \<and> body (resp (serveTemplate demo_env NewWriter (demo_request ''GET'' ''/missing.html'')))
       \<noteq> ''open templates/missing.html: no such file or directory''"
  by code_simp

text \<open>
  Claim C5. For every request that reaches the template pipeline (its template set
  parses), whatever the request, the environment and the response writer are, the
  response is what \<^verbatim>\<open>Execute\<close> writes for one and the same page: logged in, with the
  user Mario Rossi, user name \<^verbatim>\<open>mario\<close>, unique id 1, and every other field of the user
  at its zero value; and that page is the one \<^verbatim>\<open>Execute\<close> is called with.
\<close>

theorem serveTemplate_fixed_page:
  assumes "ParseFiles env (template_files r) = Inr t"
  shows "resp (serveTemplate env w r) =
           (case Execute env t the_page of
              (chunks, None) \<Rightarrow> fold Write chunks w
            | (chunks, Some e) \<Rightarrow> http_Error (fold Write chunks w) e 500)
         \<and> calls (serveTemplate env w r) =
             [ParseFilesCall (template_files r), ExecuteCall the_page]"
  using assms
  by (cases "Execute env t the_page")
     (simp add: serveTemplate_parsed StatusInternalServerError_def split: option.splits)

text \<open>
  The theorem of claim C5 at a request that names another user in its cookie and its
  body: the page greets Mario.
\<close>

theorem serveTemplate_fixed_page_witness:
  "ParseFiles demo_env (template_files luigi_request)
     = Inr \<lparr>tname = ''index.html'',
            trees = [(''index.html'', ''Hello {{.User.FirstName}}''),
                     (''footer.gohtml'', ''<footer>qaapp</footer>''),
                     (''header.gohtml'', ''<header>qaapp</header>'')]\<rparr>
   \<and> resp (serveTemplate demo_env NewWriter luigi_request)
       = \<lparr>handlerHeader = [], wrote = Some (200, []), body = ''Hello Mario''\<rparr>
   \<and> calls (serveTemplate demo_env NewWriter luigi_request)
       = [ParseFilesCall (template_files luigi_request), ExecuteCall the_page]"
proof -
  have h: "ParseFiles demo_env (template_files luigi_request)
     = Inr \<lparr>tname = ''index.html'',
            trees = [(''index.html'', ''Hello {{.User.FirstName}}''),
                     (''footer.gohtml'', ''<footer>qaapp</footer>''),
                     (''header.gohtml'', ''<header>qaapp</header>'')]\<rparr>"
    by code_simp
  have e: "(case Execute demo_env \<lparr>tname = ''index.html'',
            trees = [(''index.html'', ''Hello {{.User.FirstName}}''),
                     (''footer.gohtml'', ''<footer>qaapp</footer>''),
                     (''header.gohtml'', ''<header>qaapp</header>'')]\<rparr> the_page of
              (chunks, None) \<Rightarrow> fold Write chunks NewWriter
            | (chunks, Some e) \<Rightarrow> http_Error (fold Write chunks NewWriter) e 500)
         = \<lparr>handlerHeader = [], wrote = Some (200, []), body = ''Hello Mario''\<rparr>"
    by code_simp
  show ?thesis
    using h e serveTemplate_fixed_page [OF h, of NewWriter] by simp
qed

text \<open>
  Claim C9. Two requests with the same URL path get the same response and cause the same
  calls, in the same environment and on the same response writer, whatever their methods,
  headers, bodies and remote addresses are.
\<close>

theorem serveTemplate_path_only:
  assumes "URL_Path r1 = URL_Path r2"
  shows "serveTemplate env w r1 = serveTemplate env w r2"
  using assms by (simp add: serveTemplate_def)

text \<open>
  The theorem of claim C9 at a \<^verbatim>\<open>GET\<close> and a \<^verbatim>\<open>POST\<close> of the root path that differ
  in method, headers, body and remote address.
\<close>

theorem serveTemplate_path_only_witness:
  "URL_Path (demo_request ''GET'' ''/'') =
     URL_Path \<lparr>Method = ''POST'', URL_Path = ''/'', Header = [(''Cookie'', [''user=luigi''])],
               Body = ''first_name=Luigi'', RemoteAddr = ''10.0.0.7:51234''\<rparr>
   \<and> serveTemplate demo_env NewWriter (demo_request ''GET'' ''/'') =
     serveTemplate demo_env NewWriter
       \<lparr>Method = ''POST'', URL_Path = ''/'', Header = [(''Cookie'', [''user=luigi''])],
        Body = ''first_name=Luigi'', RemoteAddr = ''10.0.0.7:51234''\<rparr>"
proof -
  have h: "URL_Path (demo_request ''GET'' ''/'') =
     URL_Path \<lparr>Method = ''POST'', URL_Path = ''/'', Header = [(''Cookie'', [''user=luigi''])],
               Body = ''first_name=Luigi'', RemoteAddr = ''10.0.0.7:51234''\<rparr>"
    by (simp add: demo_request_def)
  show ?thesis
    using h serveTemplate_path_only [OF h, of demo_env NewWriter] by simp
qed

text \<open>
  Claim C10, as the code has it. When the template set does not parse, the handler
  writes the error and returns: the response is what \<^verbatim>\<open>http.Error\<close> makes of the fresh
  writer, with status 500 and the error text followed by a line feed as its body;
  \<^verbatim>\<open>Execute\<close> is not called, and the response is the same whatever \<^verbatim>\<open>Execute\<close> would
  write. (On the path where \<^verbatim>\<open>Execute\<close> fails, what it wrote before is in the body:
  \<open>serveTemplate_execute_failure\<close>.)
\<close>

theorem serveTemplate_parse_failure_atomic:
  assumes "ParseFiles env (template_files r) = Inl err"
  shows "serveTemplate env NewWriter r =
           \<lparr>resp = http_Error NewWriter err 500, calls = [ParseFilesCall (template_files r)]\<rparr>
         \<and> status (resp (serveTemplate env NewWriter r)) = Some 500
         \<and> body (resp (serveTemplate env NewWriter r)) = err @ [CHR 0x0A]
         \<and> serveTemplate (env\<lparr>Execute := ex\<rparr>) NewWriter r = serveTemplate env NewWriter r"
proof -
  have "ParseFiles (env\<lparr>Execute := ex\<rparr>) (template_files r) = Inl err"
    using assms by (simp add: ParseFiles_Execute_independent)
  then show ?thesis
    using assms
    by (simp add: serveTemplate_parse_error http_Error_fresh StatusInternalServerError_def)
qed

text \<open>
  The theorem of claim C10 at a request whose header fragment is malformed.
\<close>

theorem serveTemplate_parse_failure_atomic_witness:
  "ParseFiles malformed_env (template_files (demo_request ''GET'' ''/''))
     = Inl ''template: header.gohtml:1: unexpected EOF''
   \<and> body (resp (serveTemplate malformed_env NewWriter (demo_request ''GET'' ''/'')))
       = ''template: header.gohtml:1: unexpected EOF'' @ [CHR 0x0A]
   \<and> serveTemplate (malformed_env\<lparr>Execute := failing_Execute\<rparr>) NewWriter (demo_request ''GET'' ''/'')
       = serveTemplate malformed_env NewWriter (demo_request ''GET'' ''/'')"
proof -
  have h: "ParseFiles malformed_env (template_files (demo_request ''GET'' ''/''))
     = Inl ''template: header.gohtml:1: unexpected EOF''"
    by code_simp
  show ?thesis
    using h serveTemplate_parse_failure_atomic [OF h, of failing_Execute] by blast
qed

text \<open>
  Claim C10 as the specification words it (the body consists solely of the error text)
  fails on a request whose header fragment is malformed: the body is the error text and a
  line feed after it.
\<close>

theorem serveTemplate_atomic_body_counterexample:
  "ParseFiles malformed_env (template_files (demo_request ''GET'' ''/''))
     = Inl ''template: header.gohtml:1: unexpected EOF''
   \<and> body (resp (serveTemplate malformed_env NewWriter (demo_request ''GET'' ''/'')))
       \<noteq> ''template: header.gohtml:1: unexpected EOF''"
  by code_simp

section \<open>The bootstrap\<close>

lemma sql_Open_sqlite3:
  "sql_Open ''sqlite3'' dsn = (Some \<lparr>driverName = ''sqlite3'', dataSourceName = dsn\<rparr>, None)"
  by (simp add: sql_Open_def drivers_def)


lemma createDatabase_eq:
  "createDatabase env s =
     (if Stat env ''qaApp.db'' = StatNotExist then
        Return (s\<lparr>stdout := stdout s @ logged (DriverExec env ''qaApp.db'' createDatabase_sqlStmt
                                                  createDatabase_args),
                 execs := execs s @ [(createDatabase_sqlStmt, createDatabase_args)],
                 closes := Suc (closes s)\<rparr>)
      else Return s)"
  by (simp add: createDatabase_def sql_Open_sqlite3 db_Exec_def db_Close_def Println_def
        logged_def Let_def split: option.splits stat_result.splits)

lemma createDatabase_store_present:
  "Stat env ''qaApp.db'' \<noteq> StatNotExist \<Longrightarrow> createDatabase env s = Return s"
  by (simp add: createDatabase_eq)




text \<open>
  Claim C2, at a first start (no store file, a driver that accepts everything). The one
  call of \<^verbatim>\<open>Exec\<close> in \<^verbatim>\<open>createDatabase\<close> has the statement for the users table as its
  query and the four other statements as bind arguments: the query that reaches the
  driver creates the users table and none of the tables questions, answers, tags, badges.
\<close>

theorem createDatabase_sends_one_query:
  "createDatabase first_start NewProcess =
     Return \<lparr>stdout = [], execs = [(createDatabase_sqlStmt, createDatabase_args)],
             closes = 1, routes = [], listenCalled = None\<rparr>
   \<and> sublist ''create table users'' createDatabase_sqlStmt
   \<and> \<not> sublist ''create table questions'' createDatabase_sqlStmt
   \<and> \<not> sublist ''create table answers'' createDatabase_sqlStmt
   \<and> \<not> sublist ''create table tags'' createDatabase_sqlStmt
   \<and> \<not> sublist ''create table badges'' createDatabase_sqlStmt"
  by code_simp

text \<open>
  Claim C3, at a first start. The one call of \<^verbatim>\<open>Exec\<close> in \<^verbatim>\<open>createSampleData\<close> has the
  insertion into users as its query and the four other insertions as bind arguments: the
  query that reaches the driver inserts into users and into no other table.
\<close>

theorem createSampleData_sends_one_query:
  "createSampleData first_start NewProcess =
     Return \<lparr>stdout = [], execs = [(createSampleData_sqlStmt, createSampleData_args)],
             closes = 1, routes = [], listenCalled = None\<rparr>
   \<and> sublist ''insert into users'' createSampleData_sqlStmt
   \<and> \<not> sublist ''insert into questions'' createSampleData_sqlStmt
   \<and> \<not> sublist ''insert into answers'' createSampleData_sqlStmt
   \<and> \<not> sublist ''insert into tags'' createSampleData_sqlStmt
   \<and> \<not> sublist ''insert into badges'' createSampleData_sqlStmt"
  by code_simp

text \<open>
  Claim C8. In the statement for the tags table, \<^verbatim>\<open>name text\<close> and \<^verbatim>\<open>desc text\<close> are
  separated by white space only, so the column list has two entries between its commas
  and the second one holds both; the strict reading refuses the statement, while it
  accepts the four other statements, and this one too once the comma is put in.
\<close>

theorem tags_statement_malformed:
  "sublist (''name text'' @ CHR 0x0A # replicate 3 (CHR 0x09) @ ''desc text'') createDatabase_sqlStmt4
   \<and> column_defs createDatabase_sqlStmt4 =
       [[''id'', ''integer'', ''not'', ''null'', ''primary'', ''key'', ''autoincrement''],
        [''name'', ''text'', ''desc'', ''text'']]
   \<and> \<not> strict_create_table createDatabase_sqlStmt4
   \<and> strict_create_table tags_with_separator
   \<and> strict_create_table createDatabase_sqlStmt
   \<and> strict_create_table createDatabase_sqlStmt2
   \<and> strict_create_table createDatabase_sqlStmt3
   \<and> strict_create_table createDatabase_sqlStmt5"
  by code_simp

end
